theory Spec2Isabelle
  imports Main
begin

section \<open>Values, dictionaries and failures\<close>

text \<open>
  The payloads exchanged with the rendering provider and with the language model are
  JSON objects whose entries are strings or \<open>null\<close>. A decoded entry is a
  \<open>pyval\<close>: Python's \<open>None\<close> or a \<open>str\<close>. Python's \<open>==\<close> on such
  values is equality of the constructors.
\<close>

datatype pyval = PyNone | PyStr string

text \<open>
  A Python \<open>dict\<close> with string keys, in insertion order. \<open>map_of d k\<close> is the
  lookup; \<open>d[k]\<close> raises \<open>KeyError\<close> where the lookup gives \<open>None\<close>.
\<close>

type_synonym pydict = "(string \<times> pyval) list"

datatype py_error = KeyError string

text \<open>\<open>d[k] = v\<close>: an existing key keeps its position, a new key goes last.\<close>

fun setitem :: "string \<Rightarrow> pyval \<Rightarrow> pydict \<Rightarrow> pydict" where
  "setitem k v [] = [(k, v)]"
| "setitem k v ((k', v') # d) = (if k' = k then (k, v) # d else (k', v') # setitem k v d)"

text \<open>Python's truth value of a decoded entry and of an optional dictionary.\<close>

fun truthy :: "pyval \<Rightarrow> bool" where
  "truthy PyNone = False"
| "truthy (PyStr s) = (s \<noteq> [])"

fun truthy_dict :: "pydict option \<Rightarrow> bool" where
  "truthy_dict None = False"
| "truthy_dict (Some d) = (d \<noteq> [])"

section \<open>The form application: submission and polling (banner/app.py)\<close>

text \<open>
  What one HTTP exchange gives back: \<open>requests.get\<close> / \<open>requests.post\<close>,
  \<open>raise_for_status\<close> and \<open>response.json()\<close> either raise a
  \<open>RequestException\<close> (carrying its text) or yield the decoded object.
\<close>

datatype fetch = RequestException string | Response pydict

text \<open>Messages shown through \<open>st.error\<close> and \<open>st.warning\<close>.\<close>

datatype ui_msg = StError string | StWarning string

text \<open>
  The effects of the form application's helpers: the payloads of the job-creation
  requests sent (template and modification list), the number of status fetches issued,
  the number of \<open>time.sleep(2)\<close> calls, and the messages shown.
\<close>

record app_state =
  posts :: "(pyval \<times> pydict list) list"
  gets :: nat
  sleeps :: nat
  ui :: "ui_msg list"

definition init_state :: app_state where
  "init_state = \<lparr>posts = [], gets = 0, sleeps = 0, ui = []\<rparr>"

text \<open>
  \<open>generate_bannerbear_image(template_id, modifications)\<close>: one \<open>requests.post\<close>
  with the payload \<open>{"template": template_id, "modifications": modifications}\<close>; the
  decoded response, or \<open>None\<close> after \<open>st.error\<close> on a \<open>RequestException\<close>.
\<close>

fun generate_bannerbear_image ::
  "pyval \<Rightarrow> pydict list \<Rightarrow> fetch \<Rightarrow> app_state \<Rightarrow> pydict option \<times> app_state" where
  "generate_bannerbear_image template_id modifications (Response body) s =
     (Some body, s\<lparr>posts := posts s @ [(template_id, modifications)]\<rparr>)"
| "generate_bannerbear_image template_id modifications (RequestException e) s =
     (None, s\<lparr>posts := posts s @ [(template_id, modifications)],
               ui := ui s @ [StError (''Failed to generate Bannerbear image: '' @ e)]\<rparr>)"

text \<open>
  One pass through the body of the polling loop, given what the status fetch gave back:
  the function returns a value (after showing messages), an exception leaves the
  function, or control reaches \<open>time.sleep(2)\<close> and the next iteration.
\<close>

datatype outcome = Return pyval "ui_msg list" | Raise py_error | Next

fun poll_body :: "fetch \<Rightarrow> outcome" where
  "poll_body (RequestException e) = Return PyNone [StError (''Polling failed: '' @ e)]"
| "poll_body (Response data) =
     (case map_of data ''status'' of
        None \<Rightarrow> Raise (KeyError ''status'')
      | Some status \<Rightarrow>
          if status = PyStr ''completed'' then
            (case map_of data ''image_url_png'' of
               None \<Rightarrow> Raise (KeyError ''image_url_png'')
             | Some url \<Rightarrow> Return url [])
          else if status = PyStr ''failed'' then
            Return PyNone [StError ''Image generation failed on Bannerbear's side.'']
          else Next)"

text \<open>
  \<open>for _ in range(n)\<close> around that body. The provider is a function from the number
  of status fetches already issued to what the next one gives back. After the last
  iteration the function warns and returns \<open>None\<close>.
\<close>

fun poll_loop :: "nat \<Rightarrow> (nat \<Rightarrow> fetch) \<Rightarrow> app_state \<Rightarrow> (py_error + pyval) \<times> app_state" where
  "poll_loop 0 env s =
     (Inr PyNone, s\<lparr>ui := ui s @ [StWarning ''Image generation is taking longer than expected.'']\<rparr>)"
| "poll_loop (Suc n) env s =
     (case poll_body (env (gets s)) of
        Return v msgs \<Rightarrow> (Inr v, s\<lparr>gets := Suc (gets s), ui := ui s @ msgs\<rparr>)
      | Raise err \<Rightarrow> (Inl err, s\<lparr>gets := Suc (gets s)\<rparr>)
      | Next \<Rightarrow> poll_loop n env (s\<lparr>gets := Suc (gets s), sleeps := Suc (sleeps s)\<rparr>))"

text \<open>\<open>poll_for_image_completion\<close>: the loop with the source's bound of 20.\<close>

definition poll_for_image_completion :: "(nat \<Rightarrow> fetch) \<Rightarrow> app_state \<Rightarrow> (py_error + pyval) \<times> app_state" where
  "poll_for_image_completion env s = poll_loop 20 env s"

section \<open>The chat application: field updates and submission (banchat/chatbot_app.py)\<close>

text \<open>
  The assistant messages the two handlers append to \<open>st.session_state.messages\<close>, one
  constructor per message text of the source, with the layer name or image locator the
  text interpolates (the text of an exception is left out).
\<close>

datatype chat_msg =
    Updated pyval
  | LayerNotFound pyval
  | ChooseTemplateFirst
  | Generating
  | SubmitFailed
  | GeneratedImage pyval
  | DownloadButton
  | DownloadFailed
  | GenerationFailed

text \<open>
  The session state the handlers use. \<open>current_modifications\<close> holds one dictionary
  per layer of the selected template, each a separate object (they are the decoded
  entries of the template's \<open>available_modifications\<close>). \<open>created\<close> records the
  calls of \<open>create_image\<close> the handler makes: the template identifier and the
  modification list it passes.
\<close>

record session =
  messages :: "chat_msg list"
  selected_template_details :: "pydict option"
  current_modifications :: "pydict list"
  download_image :: "(string \<times> pyval) option"
  created :: "(pyval \<times> pydict list) list"

text \<open>\<open>function_call.args.get("layer_name")\<close>.\<close>

definition layer_name_arg :: "pydict \<Rightarrow> pyval" where
  "layer_name_arg args = (case map_of args ''layer_name'' of None \<Rightarrow> PyNone | Some v \<Rightarrow> v)"

text \<open>
  The \<open>if "new_text" in args ... elif "new_image_url" in args ...\<close> of the loop body,
  on the matching dictionary.
\<close>

definition apply_update :: "pydict \<Rightarrow> pydict \<Rightarrow> pydict" where
  "apply_update args m =
     (case map_of args ''new_text'' of
        Some t \<Rightarrow> setitem ''text'' t m
      | None \<Rightarrow>
          (case map_of args ''new_image_url'' of
             Some u \<Rightarrow> setitem ''image_url'' u m
           | None \<Rightarrow> m))"

text \<open>
  \<open>for mod in st.session_state.current_modifications\<close> with its \<open>break\<close>: the list
  after the loop and \<open>found_layer\<close>, or the \<open>KeyError\<close> of \<open>mod["name"]\<close>.
\<close>

fun update_loop :: "pyval \<Rightarrow> pydict \<Rightarrow> pydict list \<Rightarrow> py_error + (pydict list \<times> bool)" where
  "update_loop layer_name args [] = Inr ([], False)"
| "update_loop layer_name args (m # ms) =
     (case map_of m ''name'' of
        None \<Rightarrow> Inl (KeyError ''name'')
      | Some nm \<Rightarrow>
          if nm = layer_name then Inr (apply_update args m # ms, True)
          else (case update_loop layer_name args ms of
                  Inl err \<Rightarrow> Inl err
                | Inr (ms', found_layer) \<Rightarrow> Inr (m # ms', found_layer)))"

text \<open>
  \<open>handle_gemini_function_call(function_call)\<close>, given \<open>function_call.args\<close>. The
  result is the exception that left the handler, if any. An exception can only come from
  \<open>mod["name"]\<close> ahead of any assignment, so it leaves the session as it was.
\<close>

definition handle_gemini_function_call :: "pydict \<Rightarrow> session \<Rightarrow> py_error option \<times> session" where
  "handle_gemini_function_call args s =
     (let layer_name = layer_name_arg args in
      case update_loop layer_name args (current_modifications s) of
        Inl err \<Rightarrow> (Some err, s)
      | Inr (mods, found_layer) \<Rightarrow>
          (None, s\<lparr>current_modifications := mods,
                    messages := messages s @
                      [if found_layer then Updated layer_name else LayerNotFound layer_name]\<rparr>))"

text \<open>\<open>{key: value for key, value in mod.items() if value is not None}\<close>.\<close>

definition clean_mod :: "pydict \<Rightarrow> pydict" where
  "clean_mod m = filter (\<lambda>(key, v). v \<noteq> PyNone) m"

text \<open>
  What the chat handler gets from outside while it generates an image: what
  \<open>create_image\<close> and \<open>poll_for_image\<close> return (both are functions of
  \<open>bannerbear_helpers.py\<close>, a module the chat application imports and that is not
  among the sources), and the bytes of the downloaded image (\<open>None\<close> when
  \<open>requests.get\<close> raises).
\<close>

record chat_env =
  create_response :: "pydict option"
  poll_result :: "pydict option"
  download :: "string option"

text \<open>
  The last part of the handler, from the call of \<open>poll_for_image\<close> on. The test
  \<open>final_image and final_image.get("image_url_png")\<close> fails for \<open>None\<close>, for a
  dictionary without the key (the empty one among them), and for a value that is
  \<open>None\<close> or the empty string. In the \<open>try\<close>, a failing download and a missing
  \<open>uid\<close> both end in the \<open>except\<close> branch.
\<close>

definition present_image :: "chat_env \<Rightarrow> session \<Rightarrow> session" where
  "present_image env s =
     (case poll_result env of
        None \<Rightarrow> s\<lparr>messages := messages s @ [GenerationFailed]\<rparr>
      | Some final_image \<Rightarrow>
          (case map_of final_image ''image_url_png'' of
             None \<Rightarrow> s\<lparr>messages := messages s @ [GenerationFailed]\<rparr>
           | Some image_url \<Rightarrow>
               if truthy image_url then
                 (let s1 = s\<lparr>messages := messages s @ [GeneratedImage image_url]\<rparr>
                  in case download env of
                       None \<Rightarrow> s1\<lparr>messages := messages s1 @ [DownloadFailed]\<rparr>
                     | Some image_bytes \<Rightarrow>
                         (case map_of final_image ''uid'' of
                            None \<Rightarrow> s1\<lparr>messages := messages s1 @ [DownloadFailed]\<rparr>
                          | Some uid \<Rightarrow>
                              s1\<lparr>download_image := Some (image_bytes, uid),
                                 messages := messages s1 @ [DownloadButton]\<rparr>))
               else s\<lparr>messages := messages s @ [GenerationFailed]\<rparr>))"

text \<open>
  \<open>handle_image_generation()\<close>. The result is the exception that left the handler,
  if any: \<open>selected_template_details['uid']\<close> is read outside any \<open>try\<close>. The test
  \<open>not st.session_state.selected_template_details\<close> holds for \<open>None\<close> and for the
  empty dictionary. The call \<open>create_image(BB_API_KEY, uid, final_modifications)\<close> is
  recorded with its arguments, and its result is what the outside gives.
\<close>

definition handle_image_generation :: "chat_env \<Rightarrow> session \<Rightarrow> py_error option \<times> session" where
  "handle_image_generation env s =
     (case selected_template_details s of
        None \<Rightarrow> (None, s\<lparr>messages := messages s @ [ChooseTemplateFirst]\<rparr>)
      | Some details \<Rightarrow>
          if details = [] then (None, s\<lparr>messages := messages s @ [ChooseTemplateFirst]\<rparr>)
          else
            (let s1 = s\<lparr>messages := messages s @ [Generating]\<rparr>;
                 final_modifications = map clean_mod (current_modifications s1)
             in case map_of details ''uid'' of
                  None \<Rightarrow> (Some (KeyError ''uid''), s1)
                | Some uid \<Rightarrow>
                    (let s2 = s1\<lparr>created := created s1 @ [(uid, final_modifications)]\<rparr>;
                         initial_response = create_response env
                     in if \<not> truthy_dict initial_response then
                          (None, s2\<lparr>messages := messages s2 @ [SubmitFailed]\<rparr>)
                        else (None, present_image env s2))))"

section \<open>Vocabulary of the properties\<close>

text \<open>The status a fetch reports, if it gave a response that has one.\<close>

fun status_of :: "fetch \<Rightarrow> pyval option" where
  "status_of (RequestException e) = None"
| "status_of (Response data) = map_of data ''status''"

text \<open>The image locator a fetch carries, if it gave a response that has one.\<close>

fun locator_of :: "fetch \<Rightarrow> pyval option" where
  "locator_of (RequestException e) = None"
| "locator_of (Response data) = map_of data ''image_url_png''"

text \<open>A fetch reporting the given status.\<close>

definition reports :: "string \<Rightarrow> fetch \<Rightarrow> bool" where
  "reports st f = (status_of f = Some (PyStr st))"

text \<open>
  A fetch that reports a status other than \<open>completed\<close> and \<open>failed\<close>: the
  \<open>pending\<close> of the spec's state machine.
\<close>

definition in_progress :: "fetch \<Rightarrow> bool" where
  "in_progress f =
     (case status_of f of
        None \<Rightarrow> False
      | Some v \<Rightarrow> v \<noteq> PyStr ''completed'' \<and> v \<noteq> PyStr ''failed'')"

text \<open>The provider whose successive answers are the given list, then the last argument.\<close>

definition script :: "fetch list \<Rightarrow> fetch \<Rightarrow> nat \<Rightarrow> fetch" where
  "script fs later k = (if k < length fs then fs ! k else later)"

text \<open>A response that reports the given status and nothing else.\<close>

definition status_only :: "string \<Rightarrow> fetch" where
  "status_only st = Response [(''status'', PyStr st)]"

text \<open>A response that reports \<open>completed\<close> with the given image locator.\<close>

definition done_with :: "string \<Rightarrow> fetch" where
  "done_with url = Response [(''status'', PyStr ''completed''), (''image_url_png'', PyStr url)]"

text \<open>The number of status fetches a run of \<open>n\<close> attempts issues.\<close>

definition fetches_made :: "nat \<Rightarrow> (nat \<Rightarrow> fetch) \<Rightarrow> nat" where
  "fetches_made n env = gets (snd (poll_loop n env init_state))"

text \<open>A Python dictionary has each key once.\<close>

definition wf_dict :: "pydict \<Rightarrow> bool" where
  "wf_dict d = distinct (map fst d)"

text \<open>A modification whose \<open>name\<close> is the given layer name.\<close>

definition names :: "pyval \<Rightarrow> pydict \<Rightarrow> bool" where
  "names layer_name m = (map_of m ''name'' = Some layer_name)"

text \<open>
  The value kind a field update with the given arguments does not write: \<open>text\<close> is
  written when \<open>new_text\<close> is among the arguments, \<open>image_url\<close> otherwise.
\<close>

definition other_kind :: "pydict \<Rightarrow> string" where
  "other_kind args = (if map_of args ''new_text'' = None then ''text'' else ''image_url'')"

text \<open>An entry of a modification that is present and not \<open>None\<close>.\<close>

definition is_set :: "pydict \<Rightarrow> string \<Rightarrow> bool" where
  "is_set m k = (case map_of m k of None \<Rightarrow> False | Some v \<Rightarrow> v \<noteq> PyNone)"

text \<open>The invariant of the spec's data model: not both value kinds set.\<close>

definition one_kind :: "pydict \<Rightarrow> bool" where
  "one_kind m = (\<not> (is_set m ''text'' \<and> is_set m ''image_url''))"

text \<open>
  A session after the selection of a template with a text layer and an image layer, as
  the provider lists them, and what the outside gives a generation that succeeds.
\<close>

definition example_session :: session where
  "example_session =
     \<lparr>messages = [],
      selected_template_details = Some [(''uid'', PyStr ''tpl1''), (''name'', PyStr ''Promo'')],
      current_modifications =
        [[(''name'', PyStr ''title''), (''text'', PyNone), (''color'', PyNone)],
         [(''name'', PyStr ''photo''), (''image_url'', PyNone)]],
      download_image = None,
      created = []\<rparr>"

definition example_env :: chat_env where
  "example_env =
     \<lparr>create_response = Some [(''uid'', PyStr ''img1''), (''status'', PyStr ''pending'')],
      poll_result = Some [(''uid'', PyStr ''img1''), (''status'', PyStr ''completed''),
                          (''image_url_png'', PyStr ''https://cdn.example/img1.png'')],
      download = Some ''PNG''\<rparr>"

section \<open>The polling loop\<close>

text \<open>The loop goes on exactly on a status that is neither \<open>completed\<close> nor \<open>failed\<close>.\<close>

lemma poll_body_Next_iff: "poll_body f = Next \<longleftrightarrow> in_progress f"
  by (cases f) (auto simp: in_progress_def split: option.splits)

lemma poll_loop_skip:
  "\<forall>j<k. in_progress (env (gets s + j)) \<Longrightarrow> k \<le> n \<Longrightarrow>
   poll_loop n env s = poll_loop (n - k) env (s\<lparr>gets := gets s + k, sleeps := sleeps s + k\<rparr>)"
proof (induction k arbitrary: n s)
  case 0
  then show ?case by simp
next
  case (Suc k)
  from Suc.prems(2) obtain m where n: "n = Suc m" and km: "k \<le> m"
    by (cases n) auto
  let ?s = "s\<lparr>gets := Suc (gets s), sleeps := Suc (sleeps s)\<rparr>"
  from Suc.prems(1) have "in_progress (env (gets s + 0))" by blast
  then have first: "poll_body (env (gets s)) = Next"
    by (simp add: poll_body_Next_iff)
  have rest: "\<forall>j<k. in_progress (env (gets ?s + j))"
  proof (intro allI impI)
    fix j assume "j < k"
    then have "Suc j < Suc k" by simp
    with Suc.prems(1) have "in_progress (env (gets s + Suc j))" by blast
    then show "in_progress (env (gets ?s + j))" by simp
  qed
  have "poll_loop n env s = poll_loop m env ?s"
    by (simp add: n first)
  also have "\<dots> = poll_loop (m - k) env (?s\<lparr>gets := gets ?s + k, sleeps := sleeps ?s + k\<rparr>)"
    using Suc.IH [OF rest km] .
  finally show ?case by (simp add: n)
qed

lemma poll_loop_exhausted:
  assumes "\<forall>j<n. in_progress (env (gets s + j))"
  shows "poll_loop n env s =
    (Inr PyNone, s\<lparr>gets := gets s + n, sleeps := sleeps s + n,
       ui := ui s @ [StWarning ''Image generation is taking longer than expected.'']\<rparr>)"
  using poll_loop_skip [OF assms, of n] by simp

lemma poll_loop_stops:
  assumes "\<forall>j<k. in_progress (env (gets s + j))" and "k < n"
  shows "poll_loop n env s =
    (case poll_body (env (gets s + k)) of
       Return v msgs \<Rightarrow> (Inr v, s\<lparr>gets := Suc (gets s + k), sleeps := sleeps s + k, ui := ui s @ msgs\<rparr>)
     | Raise err \<Rightarrow> (Inl err, s\<lparr>gets := Suc (gets s + k), sleeps := sleeps s + k\<rparr>)
     | Next \<Rightarrow> poll_loop (n - Suc k) env
         (s\<lparr>gets := Suc (gets s + k), sleeps := Suc (sleeps s + k)\<rparr>))"
proof -
  from assms(2) obtain m where m: "n - k = Suc m" by (cases "n - k") auto
  then have m': "n - Suc k = m" by simp
  from assms(2) have "k \<le> n" by simp
  from poll_loop_skip [OF assms(1) this] show ?thesis
    by (simp add: m m' split: outcome.splits)
qed

text \<open>
  Either the first \<open>n\<close> answers are all in progress, or there is a first one that is not.
\<close>

lemma first_stop:
  fixes n :: nat
  shows "(\<forall>j<n. in_progress (env j)) \<or> (\<exists>k<n. (\<forall>j<k. in_progress (env j)) \<and> \<not> in_progress (env k))"
proof (induction n)
  case 0
  then show ?case by simp
next
  case (Suc n)
  from Suc.IH show ?case
  proof
    assume all: "\<forall>j<n. in_progress (env j)"
    show ?thesis
    proof (cases "in_progress (env n)")
      case True
      with all have "\<forall>j<Suc n. in_progress (env j)" by (simp add: less_Suc_eq)
      then show ?thesis ..
    next
      case False
      with all have "n < Suc n \<and> (\<forall>j<n. in_progress (env j)) \<and> \<not> in_progress (env n)" by simp
      then show ?thesis by blast
    qed
  next
    assume "\<exists>k<n. (\<forall>j<k. in_progress (env j)) \<and> \<not> in_progress (env k)"
    then obtain k where "k < n" "\<forall>j<k. in_progress (env j)" "\<not> in_progress (env k)" by blast
    then have "k < Suc n \<and> (\<forall>j<k. in_progress (env j)) \<and> \<not> in_progress (env k)" by simp
    then show ?thesis by blast
  qed
qed

text \<open>Runs from the initial state, by how they end.\<close>

lemma poll_init_exhausted:
  assumes "\<forall>j<n. in_progress (env j)"
  shows "poll_loop n env init_state =
    (Inr PyNone, \<lparr>posts = [], gets = n, sleeps = n,
       ui = [StWarning ''Image generation is taking longer than expected.'']\<rparr>)"
proof -
  from assms have "\<forall>j<n. in_progress (env (gets init_state + j))"
    by (simp add: init_state_def)
  from poll_loop_exhausted [OF this] show ?thesis
    by (simp add: init_state_def)
qed

lemma poll_init_returns:
  assumes "k < n" and "\<forall>j<k. in_progress (env j)" and "poll_body (env k) = Return v msgs"
  shows "poll_loop n env init_state =
    (Inr v, \<lparr>posts = [], gets = Suc k, sleeps = k, ui = msgs\<rparr>)"
proof -
  from assms(2) have "\<forall>j<k. in_progress (env (gets init_state + j))"
    by (simp add: init_state_def)
  from poll_loop_stops [OF this assms(1)] assms(3) show ?thesis
    by (simp add: init_state_def)
qed

lemma poll_init_raises:
  assumes "k < n" and "\<forall>j<k. in_progress (env j)" and "poll_body (env k) = Raise err"
  shows "poll_loop n env init_state =
    (Inl err, \<lparr>posts = [], gets = Suc k, sleeps = k, ui = []\<rparr>)"
proof -
  from assms(2) have "\<forall>j<k. in_progress (env (gets init_state + j))"
    by (simp add: init_state_def)
  from poll_loop_stops [OF this assms(1)] assms(3) show ?thesis
    by (simp add: init_state_def)
qed

text \<open>What the loop body does on the two terminal statuses.\<close>

lemma poll_body_completed:
  "reports ''completed'' f \<Longrightarrow> locator_of f = Some v \<Longrightarrow> poll_body f = Return v []"
  by (cases f) (auto simp: reports_def)

lemma poll_body_completed_no_locator:
  "reports ''completed'' f \<Longrightarrow> locator_of f = None \<Longrightarrow> poll_body f = Raise (KeyError ''image_url_png'')"
  by (cases f) (auto simp: reports_def)

lemma poll_body_failed:
  "reports ''failed'' f \<Longrightarrow>
   poll_body f = Return PyNone [StError ''Image generation failed on Bannerbear's side.'']"
  by (cases f) (auto simp: reports_def)

lemma poll_body_Return_str:
  "poll_body f = Return (PyStr u) msgs \<Longrightarrow> reports ''completed'' f \<and> locator_of f = Some (PyStr u)"
  by (cases f) (auto simp: reports_def split: option.splits if_splits)

lemma terminal_not_in_progress:
  "reports ''completed'' f \<or> reports ''failed'' f \<Longrightarrow> \<not> in_progress f"
  by (auto simp: reports_def in_progress_def)

text \<open>The number of fetches: all \<open>n\<close>, or up to the first answer not in progress.\<close>

lemma fetches_made_exhausted:
  "\<forall>j<n. in_progress (env j) \<Longrightarrow> fetches_made n env = n"
  by (simp add: fetches_made_def poll_init_exhausted)

lemma fetches_made_stopped:
  assumes "k < n" and "\<forall>j<k. in_progress (env j)" and "\<not> in_progress (env k)"
  shows "fetches_made n env = Suc k"
proof (cases "poll_body (env k)")
  case (Return v msgs)
  from poll_init_returns [OF assms(1,2) this] show ?thesis by (simp add: fetches_made_def)
next
  case (Raise err)
  from poll_init_raises [OF assms(1,2) this] show ?thesis by (simp add: fetches_made_def)
next
  case Next
  with assms(3) show ?thesis by (simp add: poll_body_Next_iff)
qed

lemma fetches_made_le: "fetches_made n env \<le> n"
  using first_stop [of n env] by (auto simp: fetches_made_exhausted fetches_made_stopped)

lemma fetched_before_last: "Suc k < fetches_made n env \<Longrightarrow> in_progress (env k)"
  using first_stop [of n env] by (auto simp: fetches_made_exhausted fetches_made_stopped)

text \<open>Scripted providers whose answers are all in progress.\<close>

lemma script_in_progress:
  "\<forall>f\<in>set fs. in_progress f \<Longrightarrow> in_progress later \<Longrightarrow> in_progress (script fs later k)"
  by (simp add: script_def)

lemma in_progress_status_only:
  "st \<noteq> ''completed'' \<Longrightarrow> st \<noteq> ''failed'' \<Longrightarrow> in_progress (status_only st)"
  by (simp add: in_progress_def status_only_def)

section \<open>Dictionaries and the update loop\<close>

text \<open>Lookups after an assignment and after the removal of the \<open>None\<close> entries.\<close>

lemma map_of_setitem: "map_of (setitem k v d) k' = (if k' = k then Some v else map_of d k')"
  by (induction d) auto

lemma map_of_clean_mod:
  "wf_dict m \<Longrightarrow>
   map_of (clean_mod m) k = (case map_of m k of Some PyNone \<Rightarrow> None | r \<Rightarrow> r)"
proof (induction m)
  case Nil
  then show ?case by (simp add: clean_mod_def)
next
  case (Cons p m)
  obtain k' v where p: "p = (k', v)" by (cases p)
  from Cons.prems have wf: "wf_dict m" and fresh: "k' \<notin> fst ` set m"
    by (simp_all add: wf_dict_def p)
  from fresh have "map_of m k' = None" by (simp add: map_of_eq_None_iff)
  with Cons.IH [OF wf] show ?case
    by (cases v) (auto simp: clean_mod_def p split: option.splits pyval.splits)
qed

lemma set_clean_mod: "set (clean_mod m) = {kv \<in> set m. snd kv \<noteq> PyNone}"
  by (auto simp: clean_mod_def)

lemma is_set_clean_mod: "wf_dict m \<Longrightarrow> is_set (clean_mod m) k = is_set m k"
  by (simp add: is_set_def map_of_clean_mod split: option.splits pyval.splits)

lemma one_kind_clean_mod: "wf_dict m \<Longrightarrow> one_kind (clean_mod m) = one_kind m"
  by (simp add: one_kind_def is_set_clean_mod)

lemma one_kind_apply_update:
  "one_kind m \<Longrightarrow> \<not> is_set m (other_kind args) \<Longrightarrow> one_kind (apply_update args m)"
  by (auto simp: one_kind_def is_set_def apply_update_def other_kind_def map_of_setitem
      split: option.splits)

text \<open>
  The loop changes the first modification with the given name, by \<open>apply_update\<close>, and
  nothing else; without such a modification it changes nothing.
\<close>

lemma update_loop_found:
  "update_loop l args ms = Inr (ms', True) \<Longrightarrow>
   \<exists>pre m post. ms = pre @ m # post \<and> (\<forall>x\<in>set pre. \<not> names l x) \<and> names l m \<and>
     ms' = pre @ apply_update args m # post"
proof (induction ms arbitrary: ms')
  case Nil
  then show ?case by simp
next
  case (Cons a ms)
  show ?case
  proof (cases "names l a")
    case True
    with Cons.prems have "ms' = apply_update args a # ms" by (simp add: names_def)
    with True have "a # ms = [] @ a # ms \<and> (\<forall>x\<in>set []. \<not> names l x) \<and> names l a \<and>
      ms' = [] @ apply_update args a # ms" by simp
    then show ?thesis by blast
  next
    case False
    with Cons.prems obtain rest where rest: "update_loop l args ms = Inr (rest, True)" "ms' = a # rest"
      by (auto simp: names_def split: option.splits sum.splits)
    from Cons.IH [OF rest(1)] obtain pre m post where
      d: "ms = pre @ m # post" "\<forall>x\<in>set pre. \<not> names l x" "names l m"
         "rest = pre @ apply_update args m # post" by blast
    with False rest(2) have "a # ms = (a # pre) @ m # post \<and> (\<forall>x\<in>set (a # pre). \<not> names l x) \<and>
      names l m \<and> ms' = (a # pre) @ apply_update args m # post" by simp
    then show ?thesis by blast
  qed
qed

lemma update_loop_not_found:
  "update_loop l args ms = Inr (ms', False) \<Longrightarrow> ms' = ms \<and> (\<forall>x\<in>set ms. \<not> names l x)"
  by (induction ms arbitrary: ms') (auto simp: names_def split: option.splits sum.splits if_splits)

lemma update_loop_no_match:
  "\<forall>x\<in>set ms. \<not> names l x \<Longrightarrow> update_loop l args ms = Inr (ms', found) \<Longrightarrow> ms' = ms \<and> \<not> found"
  by (induction ms arbitrary: ms' found) (auto simp: names_def split: option.splits sum.splits if_splits)

text \<open>What a field update does to the modification list.\<close>

lemma handler_modifications:
  "current_modifications (snd (handle_gemini_function_call args s)) =
     (case update_loop (layer_name_arg args) args (current_modifications s) of
        Inl err \<Rightarrow> current_modifications s
      | Inr (ms, found_layer) \<Rightarrow> ms)"
  by (simp add: handle_gemini_function_call_def Let_def split: sum.splits prod.splits)

lemma handler_changes:
  "current_modifications (snd (handle_gemini_function_call args s)) = current_modifications s \<or>
    (\<exists>pre m post.
        current_modifications s = pre @ m # post \<and>
        (\<forall>x\<in>set pre. \<not> names (layer_name_arg args) x) \<and>
        names (layer_name_arg args) m \<and>
        current_modifications (snd (handle_gemini_function_call args s))
          = pre @ apply_update args m # post)"
proof (cases "update_loop (layer_name_arg args) args (current_modifications s)")
  case (Inl err)
  then show ?thesis by (simp add: handler_modifications)
next
  case (Inr r)
  obtain ms found where r: "r = (ms, found)" by (cases r)
  with Inr have run: "update_loop (layer_name_arg args) args (current_modifications s) = Inr (ms, found)"
    by simp
  then have res: "current_modifications (snd (handle_gemini_function_call args s)) = ms"
    by (simp add: handler_modifications)
  show ?thesis unfolding res
  proof (cases found)
    case True
    with run have "update_loop (layer_name_arg args) args (current_modifications s) = Inr (ms, True)"
      by simp
    from update_loop_found [OF this] show "ms = current_modifications s \<or>
    (\<exists>pre m post.
        current_modifications s = pre @ m # post \<and>
        (\<forall>x\<in>set pre. \<not> names (layer_name_arg args) x) \<and>
        names (layer_name_arg args) m \<and> ms = pre @ apply_update args m # post)" ..
  next
    case False
    with run have "update_loop (layer_name_arg args) args (current_modifications s) = Inr (ms, False)"
      by simp
    from update_loop_not_found [OF this] show "ms = current_modifications s \<or>
    (\<exists>pre m post.
        current_modifications s = pre @ m # post \<and>
        (\<forall>x\<in>set pre. \<not> names (layer_name_arg args) x) \<and>
        names (layer_name_arg args) m \<and> ms = pre @ apply_update args m # post)" by simp
  qed
qed

lemma handler_no_match:
  assumes "\<forall>x\<in>set (current_modifications s). \<not> names (layer_name_arg args) x"
  shows "current_modifications (snd (handle_gemini_function_call args s)) = current_modifications s"
proof (cases "update_loop (layer_name_arg args) args (current_modifications s)")
  case (Inl err)
  then show ?thesis by (simp add: handler_modifications)
next
  case (Inr r)
  obtain ms found where "r = (ms, found)" by (cases r)
  with Inr have run: "update_loop (layer_name_arg args) args (current_modifications s) = Inr (ms, found)"
    by simp
  from update_loop_no_match [OF assms run] run show ?thesis
    by (simp add: handler_modifications)
qed

text \<open>Assignments keep the keys of a dictionary distinct.\<close>

lemma keys_setitem:
  "map fst (setitem k v d) = (if k \<in> set (map fst d) then map fst d else map fst d @ [k])"
  by (induction d) force+

lemma wf_dict_setitem: "wf_dict d \<Longrightarrow> wf_dict (setitem k v d)"
  by (simp add: wf_dict_def keys_setitem)

lemma wf_dict_apply_update: "wf_dict m \<Longrightarrow> wf_dict (apply_update args m)"
  by (simp add: apply_update_def wf_dict_setitem split: option.splits)

lemma list_all_one_kind_clean:
  "list_all wf_dict ms \<Longrightarrow> list_all one_kind ms \<Longrightarrow> list_all one_kind (map clean_mod ms)"
  by (induction ms) (simp_all add: one_kind_clean_mod)

text \<open>The calls of \<open>create_image\<close> the chat handler makes.\<close>

lemma present_image_created: "created (present_image env s) = created s"
  by (simp add: present_image_def Let_def split: option.splits)

lemma handle_image_generation_created:
  assumes "selected_template_details s = Some details" and "map_of details ''uid'' = Some uid"
  shows "created (snd (handle_image_generation env s)) =
           created s @ [(uid, map clean_mod (current_modifications s))]"
proof -
  from assms(2) have "details \<noteq> []" by auto
  with assms show ?thesis
    by (simp add: handle_image_generation_def Let_def present_image_created)
qed

section \<open>Properties of polling\<close>

text \<open>
  Claim C1, as the code has it. A run of \<open>n\<close> attempts returns an image locator (a
  string) exactly when, within the first \<open>n\<close> fetches, a fetch reports \<open>completed\<close>
  after fetches in progress only, in a response that carries that string as its
  \<open>image_url_png\<close>. The value returned is the \<open>image_url_png\<close> of the response in
  which \<open>completed\<close> was first observed, and the run has then issued exactly the
  fetches up to that one.
\<close>

theorem poll_returns_locator_iff:
  "(fst (poll_loop n env init_state) = Inr (PyStr u) \<longleftrightarrow>
      (\<exists>k<n. (\<forall>j<k. in_progress (env j)) \<and> reports ''completed'' (env k) \<and>
              locator_of (env k) = Some (PyStr u))) \<and>
   (\<forall>k v. k < n \<and> (\<forall>j<k. in_progress (env j)) \<and> reports ''completed'' (env k) \<and>
           locator_of (env k) = Some v \<longrightarrow>
      poll_loop n env init_state = (Inr v, \<lparr>posts = [], gets = Suc k, sleeps = k, ui = []\<rparr>))"
proof (intro conjI iffI allI impI)
  fix k v
  assume "k < n \<and> (\<forall>j<k. in_progress (env j)) \<and> reports ''completed'' (env k) \<and>
          locator_of (env k) = Some v"
  then show "poll_loop n env init_state = (Inr v, \<lparr>posts = [], gets = Suc k, sleeps = k, ui = []\<rparr>)"
    using poll_init_returns [of k n env v "[]"] by (simp add: poll_body_completed)
next
  assume "\<exists>k<n. (\<forall>j<k. in_progress (env j)) \<and> reports ''completed'' (env k) \<and>
            locator_of (env k) = Some (PyStr u)"
  then obtain k where k: "k < n" "\<forall>j<k. in_progress (env j)" "reports ''completed'' (env k)"
    "locator_of (env k) = Some (PyStr u)" by blast
  from k(3,4) have "poll_body (env k) = Return (PyStr u) []" by (rule poll_body_completed)
  from poll_init_returns [OF k(1,2) this] show "fst (poll_loop n env init_state) = Inr (PyStr u)"
    by simp
next
  assume res: "fst (poll_loop n env init_state) = Inr (PyStr u)"
  from first_stop [of n env]
  show "\<exists>k<n. (\<forall>j<k. in_progress (env j)) \<and> reports ''completed'' (env k) \<and>
            locator_of (env k) = Some (PyStr u)"
  proof
    assume "\<forall>j<n. in_progress (env j)"
    from poll_init_exhausted [OF this] res show ?thesis by simp
  next
    assume "\<exists>k<n. (\<forall>j<k. in_progress (env j)) \<and> \<not> in_progress (env k)"
    then obtain k where k: "k < n" "\<forall>j<k. in_progress (env j)" "\<not> in_progress (env k)" by blast
    show ?thesis
    proof (cases "poll_body (env k)")
      case (Return v msgs)
      from poll_init_returns [OF k(1,2) this] res have "v = PyStr u" by simp
      with Return have "reports ''completed'' (env k) \<and> locator_of (env k) = Some (PyStr u)"
        by (simp add: poll_body_Return_str)
      with k(1,2) show ?thesis by blast
    next
      case (Raise err)
      from poll_init_raises [OF k(1,2) this] res show ?thesis by simp
    next
      case Next
      with k(3) show ?thesis by (simp add: poll_body_Next_iff)
    qed
  qed
qed

text \<open>
  The sequence pending, pending, completed with five attempts: three fetches, and the
  locator of the third response.
\<close>

theorem poll_returns_locator_iff_witness:
  "in_progress (script [status_only ''pending'', status_only ''pending'', done_with ''https://cdn.example/a.png''] (status_only ''pending'') 0) \<and>
   in_progress (script [status_only ''pending'', status_only ''pending'', done_with ''https://cdn.example/a.png''] (status_only ''pending'') 1) \<and>
   reports ''completed'' (script [status_only ''pending'', status_only ''pending'', done_with ''https://cdn.example/a.png''] (status_only ''pending'') 2) \<and>
   locator_of (script [status_only ''pending'', status_only ''pending'', done_with ''https://cdn.example/a.png''] (status_only ''pending'') 2)
     = Some (PyStr ''https://cdn.example/a.png'') \<and>
   poll_loop 5 (script [status_only ''pending'', status_only ''pending'', done_with ''https://cdn.example/a.png''] (status_only ''pending'')) init_state
     = (Inr (PyStr ''https://cdn.example/a.png''), \<lparr>posts = [], gets = 3, sleeps = 2, ui = []\<rparr>)"
proof -
  let ?env = "script [status_only ''pending'', status_only ''pending'', done_with ''https://cdn.example/a.png''] (status_only ''pending'')"
  have p0: "in_progress (?env 0)" by (simp add: script_def in_progress_status_only)
  have p1: "in_progress (?env 1)" by (simp add: script_def in_progress_status_only)
  have c2: "reports ''completed'' (?env 2)" by (simp add: script_def reports_def done_with_def)
  have l2: "locator_of (?env 2) = Some (PyStr ''https://cdn.example/a.png'')"
    by (simp add: script_def done_with_def)
  have before: "\<forall>j<2. in_progress (?env j)"
    using p0 p1 by (simp add: less_2_cases_iff)
  have h: "2 < (5::nat) \<and> (\<forall>j<2. in_progress (?env j)) \<and> reports ''completed'' (?env 2) \<and>
           locator_of (?env 2) = Some (PyStr ''https://cdn.example/a.png'')"
    using before c2 l2 by simp
  from poll_returns_locator_iff [of 5 ?env, THEN conjunct2, rule_format, OF h] p0 p1 c2 l2
  show ?thesis by simp
qed

text \<open>
  Where the claim as stated fails: \<open>completed\<close> is observed on the third of five
  attempts, in a response without \<open>image_url_png\<close>, and no locator is returned.
\<close>

theorem poll_completed_without_locator:
  "in_progress (script [status_only ''pending'', status_only ''pending'', status_only ''completed''] (status_only ''pending'') 0) \<and>
   in_progress (script [status_only ''pending'', status_only ''pending'', status_only ''completed''] (status_only ''pending'') 1) \<and>
   reports ''completed'' (script [status_only ''pending'', status_only ''pending'', status_only ''completed''] (status_only ''pending'') 2) \<and>
   poll_loop 5 (script [status_only ''pending'', status_only ''pending'', status_only ''completed''] (status_only ''pending'')) init_state
     = (Inl (KeyError ''image_url_png''), \<lparr>posts = [], gets = 3, sleeps = 2, ui = []\<rparr>)"
  by (simp add: script_def in_progress_def reports_def status_only_def init_state_def
      eval_nat_numeral)

text \<open>
  Claim C2, as the code has it. When none of the first \<open>n\<close> status fetches reports
  \<open>completed\<close> or \<open>failed\<close> (each gives a response with some other status), the
  loop of \<open>n\<close> attempts issues exactly \<open>n\<close> status fetches, sleeps after each, and
  leaves by its timeout exit: it shows the warning that the generation takes longer than
  expected and returns \<open>None\<close>. Neither the value returned nor the warning carries
  the number of attempts; \<open>poll_for_image_completion\<close> is the case \<open>n = 20\<close>.
\<close>

theorem poll_exhausts_attempts:
  assumes "\<forall>j<n. in_progress (env j)"
  shows "poll_loop n env init_state =
    (Inr PyNone, init_state\<lparr>gets := n, sleeps := n,
       ui := [StWarning ''Image generation is taking longer than expected.'']\<rparr>)"
proof -
  from assms have "\<forall>j<n. in_progress (env (gets init_state + j))"
    by (simp add: init_state_def)
  from poll_loop_exhausted [OF this] show ?thesis
    by (simp add: init_state_def)
qed

text \<open>The sequence pending, pending, pending with three attempts.\<close>

theorem poll_exhausts_attempts_witness:
  "in_progress (status_only ''pending'') \<and>
   poll_loop 3
     (script [status_only ''pending'', status_only ''pending'', status_only ''pending'']
        (status_only ''pending''))
     init_state =
   (Inr PyNone, \<lparr>posts = [], gets = 3, sleeps = 3,
      ui = [StWarning ''Image generation is taking longer than expected.'']\<rparr>)"
proof -
  let ?env = "script [status_only ''pending'', status_only ''pending'', status_only ''pending'']
         (status_only ''pending'')"
  have h: "\<forall>j<3. in_progress (?env j)"
    by (simp add: script_in_progress in_progress_status_only)
  from poll_exhausts_attempts [OF h] show ?thesis
    by (simp add: init_state_def in_progress_status_only)
qed

text \<open>
  Where the claim as stated fails: after three attempts on pending, pending, pending the
  caller gets \<open>None\<close> and the warning, the very same as after five attempts on a
  provider that stays pending, while three and five fetches were issued. The result reports
  no number of attempts.
\<close>

theorem timeout_reports_no_attempts:
  "poll_loop 3
     (script [status_only ''pending'', status_only ''pending'', status_only ''pending'']
        (status_only ''pending''))
     init_state
   = (Inr PyNone, \<lparr>posts = [], gets = 3, sleeps = 3,
        ui = [StWarning ''Image generation is taking longer than expected.'']\<rparr>) \<and>
   poll_loop 5
     (script [status_only ''pending'', status_only ''pending'', status_only ''pending'']
        (status_only ''pending''))
     init_state
   = (Inr PyNone, \<lparr>posts = [], gets = 5, sleeps = 5,
        ui = [StWarning ''Image generation is taking longer than expected.'']\<rparr>) \<and>
   fst (poll_loop 3
     (script [status_only ''pending'', status_only ''pending'', status_only ''pending'']
        (status_only ''pending''))
     init_state)
   = fst (poll_loop 5
     (script [status_only ''pending'', status_only ''pending'', status_only ''pending'']
        (status_only ''pending''))
     init_state) \<and>
   ui (snd (poll_loop 3
     (script [status_only ''pending'', status_only ''pending'', status_only ''pending'']
        (status_only ''pending''))
     init_state))
   = ui (snd (poll_loop 5
     (script [status_only ''pending'', status_only ''pending'', status_only ''pending'']
        (status_only ''pending''))
     init_state))"
  by (simp add: script_def status_only_def init_state_def eval_nat_numeral)

text \<open>
  Claim C3. When the fetch number \<open>k + 1\<close> is the first that does not report a status
  in progress and it reports \<open>failed\<close>, the loop stops there: it has issued exactly
  \<open>k + 1\<close> status fetches, whatever the number \<open>n > k\<close> of attempts allowed, shows
  that the generation failed on the provider's side and returns \<open>None\<close>.
\<close>

theorem poll_stops_on_failed:
  assumes "k < n" and "\<forall>j<k. in_progress (env j)" and "reports ''failed'' (env k)"
  shows "poll_loop n env init_state =
    (Inr PyNone, init_state\<lparr>gets := Suc k, sleeps := k,
       ui := [StError ''Image generation failed on Bannerbear's side.'']\<rparr>)"
proof -
  from assms(3) obtain d where d: "env k = Response d" "map_of d ''status'' = Some (PyStr ''failed'')"
    by (cases "env k") (auto simp: reports_def)
  from assms(2) have "\<forall>j<k. in_progress (env (gets init_state + j))"
    by (simp add: init_state_def)
  from poll_loop_stops [OF this assms(1)] d show ?thesis
    by (simp add: init_state_def)
qed

text \<open>The sequence pending, failed with five attempts: two fetches.\<close>

theorem poll_stops_on_failed_witness:
  "(1::nat) < 5 \<and>
   in_progress (script [status_only ''pending'', status_only ''failed''] (status_only ''pending'') 0) \<and>
   reports ''failed'' (script [status_only ''pending'', status_only ''failed''] (status_only ''pending'') 1) \<and>
   poll_loop 5 (script [status_only ''pending'', status_only ''failed''] (status_only ''pending''))
     init_state =
   (Inr PyNone, \<lparr>posts = [], gets = 2, sleeps = 1,
      ui = [StError ''Image generation failed on Bannerbear's side.'']\<rparr>)"
proof -
  let ?env = "script [status_only ''pending'', status_only ''failed''] (status_only ''pending'')"
  have a: "(1::nat) < 5" by simp
  have b: "\<forall>j<1. in_progress (?env j)"
    by (simp add: script_def in_progress_status_only)
  have c: "reports ''failed'' (?env 1)"
    by (simp add: script_def reports_def status_only_def)
  from poll_stops_on_failed [OF a b c] a b c show ?thesis
    by (simp add: init_state_def)
qed

text \<open>
  Claim C4, as the code has it. When the fetch number \<open>k + 1\<close> raises a
  \<open>RequestException\<close> (a network failure or a response that is not 2xx) after \<open>k\<close>
  answers in progress, the loop aborts at once: exactly \<open>k + 1\<close> fetches have been
  issued, none is retried, the failure of polling is shown as an error with the text of
  the exception, and \<open>None\<close> is returned. This exit is not the timeout exit, which
  shows a warning, and its result carries no number of attempts.
\<close>

theorem poll_aborts_on_transport_error:
  assumes "k < n" and "\<forall>j<k. in_progress (env j)" and "env k = RequestException e"
  shows "poll_loop n env init_state =
    (Inr PyNone, init_state\<lparr>gets := Suc k, sleeps := k,
       ui := [StError (''Polling failed: '' @ e)]\<rparr>)"
proof -
  from assms(2) have "\<forall>j<k. in_progress (env (gets init_state + j))"
    by (simp add: init_state_def)
  from poll_loop_stops [OF this assms(1)] assms(3) show ?thesis
    by (simp add: init_state_def)
qed

text \<open>A transport error on the second of five attempts: two fetches.\<close>

theorem poll_aborts_on_transport_error_witness:
  "(1::nat) < 5 \<and>
   in_progress (script [status_only ''pending'', RequestException ''connection reset''] (status_only ''pending'') 0) \<and>
   script [status_only ''pending'', RequestException ''connection reset''] (status_only ''pending'') 1
     = RequestException ''connection reset'' \<and>
   poll_loop 5 (script [status_only ''pending'', RequestException ''connection reset''] (status_only ''pending''))
     init_state =
   (Inr PyNone, \<lparr>posts = [], gets = 2, sleeps = 1,
      ui = [StError ''Polling failed: connection reset'']\<rparr>)"
proof -
  let ?env = "script [status_only ''pending'', RequestException ''connection reset''] (status_only ''pending'')"
  have a: "(1::nat) < 5" by simp
  have b: "\<forall>j<1. in_progress (?env j)"
    by (simp add: script_def in_progress_status_only)
  have c: "?env 1 = RequestException ''connection reset''"
    by (simp add: script_def)
  from poll_aborts_on_transport_error [OF a b c] a b c show ?thesis
    by (simp add: init_state_def)
qed

text \<open>
  Where the claim as stated fails: a transport error on the second of five attempts gives
  \<open>None\<close> and the error that polling failed, not the warning of the timeout exit; and
  the caller gets the very same from a transport error on the first attempt, while two
  fetches and one fetch were issued.
\<close>

theorem transport_error_is_no_timeout:
  "poll_loop 5 (script [status_only ''pending'', RequestException ''connection reset'']
      (status_only ''pending'')) init_state
   = (Inr PyNone, \<lparr>posts = [], gets = 2, sleeps = 1,
        ui = [StError ''Polling failed: connection reset'']\<rparr>) \<and>
   poll_loop 5 (script [RequestException ''connection reset''] (status_only ''pending'')) init_state
   = (Inr PyNone, \<lparr>posts = [], gets = 1, sleeps = 0,
        ui = [StError ''Polling failed: connection reset'']\<rparr>) \<and>
   ui (snd (poll_loop 5 (script [status_only ''pending'', RequestException ''connection reset'']
      (status_only ''pending'')) init_state))
   \<noteq> [StWarning ''Image generation is taking longer than expected.'']"
  by (simp add: script_def status_only_def init_state_def eval_nat_numeral)

text \<open>
  Claim C5, as the code has it. A failure is not a typed value: the poll returns
  \<open>None\<close> alike when the provider reports \<open>failed\<close>, when a status fetch raises a
  \<open>RequestException\<close> and when the attempts are exhausted, and
  \<open>generate_bannerbear_image\<close> returns \<open>None\<close> when the creation of the job fails.
  What tells the kinds apart is the one message each of these exits shows, and the four
  messages differ from each other.
\<close>

theorem failures_told_apart_by_message:
  "(k < n \<and> (\<forall>j<k. in_progress (env j)) \<and> reports ''failed'' (env k) \<longrightarrow>
      fst (poll_loop n env init_state) = Inr PyNone \<and>
      ui (snd (poll_loop n env init_state))
        = [StError ''Image generation failed on Bannerbear's side.'']) \<and>
   (k < n \<and> (\<forall>j<k. in_progress (env j)) \<and> env k = RequestException e \<longrightarrow>
      fst (poll_loop n env init_state) = Inr PyNone \<and>
      ui (snd (poll_loop n env init_state)) = [StError (''Polling failed: '' @ e)]) \<and>
   ((\<forall>j<n. in_progress (env j)) \<longrightarrow>
      fst (poll_loop n env init_state) = Inr PyNone \<and>
      ui (snd (poll_loop n env init_state))
        = [StWarning ''Image generation is taking longer than expected.'']) \<and>
   generate_bannerbear_image template_id modifications (RequestException e') a
     = (None, a\<lparr>posts := posts a @ [(template_id, modifications)],
                ui := ui a @ [StError (''Failed to generate Bannerbear image: '' @ e')]\<rparr>) \<and>
   StError ''Image generation failed on Bannerbear's side.'' \<noteq> StError (''Polling failed: '' @ e) \<and>
   StError ''Image generation failed on Bannerbear's side.''
     \<noteq> StWarning ''Image generation is taking longer than expected.'' \<and>
   StError (''Polling failed: '' @ e) \<noteq> StWarning ''Image generation is taking longer than expected.'' \<and>
   StError (''Failed to generate Bannerbear image: '' @ e')
     \<noteq> StError ''Image generation failed on Bannerbear's side.'' \<and>
   StError (''Failed to generate Bannerbear image: '' @ e') \<noteq> StError (''Polling failed: '' @ e)"
proof (intro conjI impI)
  assume h: "k < n \<and> (\<forall>j<k. in_progress (env j)) \<and> reports ''failed'' (env k)"
  then have b: "poll_body (env k) = Return PyNone [StError ''Image generation failed on Bannerbear's side.'']"
    by (simp add: poll_body_failed)
  from h have "k < n" "\<forall>j<k. in_progress (env j)" by simp_all
  from poll_init_returns [OF this b]
  show "fst (poll_loop n env init_state) = Inr PyNone"
    and "ui (snd (poll_loop n env init_state)) = [StError ''Image generation failed on Bannerbear's side.'']"
    by simp_all
next
  assume h: "k < n \<and> (\<forall>j<k. in_progress (env j)) \<and> env k = RequestException e"
  then have b: "poll_body (env k) = Return PyNone [StError (''Polling failed: '' @ e)]"
    by simp
  from h have "k < n" "\<forall>j<k. in_progress (env j)" by simp_all
  from poll_init_returns [OF this b]
  show "fst (poll_loop n env init_state) = Inr PyNone"
    and "ui (snd (poll_loop n env init_state)) = [StError (''Polling failed: '' @ e)]"
    by simp_all
next
  assume h: "\<forall>j<n. in_progress (env j)"
  from poll_init_exhausted [OF h]
  show "fst (poll_loop n env init_state) = Inr PyNone"
    and "ui (snd (poll_loop n env init_state))
        = [StWarning ''Image generation is taking longer than expected.'']"
    by simp_all
qed simp_all

text \<open>A provider that reports \<open>failed\<close> at once, polled by the source's 20 attempts.\<close>

theorem failures_told_apart_by_message_witness:
  "reports ''failed'' (script [status_only ''failed''] (status_only ''pending'') 0) \<and>
   poll_loop 20 (script [status_only ''failed''] (status_only ''pending'')) init_state
     = (Inr PyNone, \<lparr>posts = [], gets = 1, sleeps = 0,
          ui = [StError ''Image generation failed on Bannerbear's side.'']\<rparr>)"
proof -
  let ?env = "script [status_only ''failed''] (status_only ''pending'')"
  have r: "reports ''failed'' (?env 0)" by (simp add: script_def status_only_def reports_def)
  then have h: "0 < (20::nat) \<and> (\<forall>j<0. in_progress (?env j)) \<and> reports ''failed'' (?env 0)" by simp
  from failures_told_apart_by_message [of 0 20 ?env, THEN conjunct1, THEN mp, OF h]
  have "fst (poll_loop 20 ?env init_state) = Inr PyNone \<and>
      ui (snd (poll_loop 20 ?env init_state))
        = [StError ''Image generation failed on Bannerbear's side.'']" .
  moreover have "gets (snd (poll_loop 20 ?env init_state)) = 1 \<and>
      sleeps (snd (poll_loop 20 ?env init_state)) = 0 \<and> posts (snd (poll_loop 20 ?env init_state)) = []"
    by (simp add: script_def status_only_def init_state_def eval_nat_numeral)
  ultimately have "poll_loop 20 ?env init_state
     = (Inr PyNone, \<lparr>posts = [], gets = 1, sleeps = 0,
          ui = [StError ''Image generation failed on Bannerbear's side.'']\<rparr>)"
    by (cases "poll_loop 20 ?env init_state") auto
  with r show ?thesis by simp
qed

text \<open>
  Where the claim as stated fails: a failure reported by the provider, a transport error,
  the exhaustion of the attempts and a failed submission all hand \<open>None\<close> to the
  caller.
\<close>

theorem failures_return_none:
  "fst (poll_for_image_completion (script [status_only ''failed''] (status_only ''pending'')) init_state)
     = Inr PyNone \<and>
   fst (poll_for_image_completion
          (script [RequestException ''connection reset''] (status_only ''pending'')) init_state)
     = Inr PyNone \<and>
   fst (poll_for_image_completion (script [] (status_only ''pending'')) init_state) = Inr PyNone \<and>
   fst (generate_bannerbear_image (PyStr ''tpl1'')
          [[(''name'', PyStr ''title''), (''text'', PyStr ''Hello'')]]
          (RequestException ''connection reset'') init_state)
     = None \<and>
   ui (snd (poll_for_image_completion (script [] (status_only ''pending'')) init_state))
     = [StWarning ''Image generation is taking longer than expected.''] \<and>
   ui (snd (poll_for_image_completion (script [status_only ''failed''] (status_only ''pending'')) init_state))
     = [StError ''Image generation failed on Bannerbear's side.''] \<and>
   ui (snd (poll_for_image_completion
          (script [RequestException ''connection reset''] (status_only ''pending'')) init_state))
     = [StError ''Polling failed: connection reset'']"
  by (simp add: poll_for_image_completion_def script_def status_only_def init_state_def
      eval_nat_numeral)

text \<open>
  Claim C7. A run of \<open>n\<close> attempts issues at most \<open>n\<close> status fetches. Every fetch
  that is followed by another one reported a status in progress, so the only transitions
  between observed statuses leave a status that is neither \<open>completed\<close> nor
  \<open>failed\<close>; a fetch that reports \<open>completed\<close> or \<open>failed\<close> is the last one
  issued; and the step from one status in progress to the next happens at most
  \<open>n - 1\<close> times.
\<close>

theorem poll_never_fetches_after_terminal:
  "fetches_made n env \<le> n \<and>
   (\<forall>k. Suc k < fetches_made n env \<longrightarrow> in_progress (env k)) \<and>
   (\<forall>k. k < fetches_made n env \<and> (reports ''completed'' (env k) \<or> reports ''failed'' (env k))
      \<longrightarrow> fetches_made n env = Suc k) \<and>
   card {k. Suc k < fetches_made n env \<and> in_progress (env k) \<and> in_progress (env (Suc k))} \<le> n - 1"
proof (intro conjI allI impI)
  show "fetches_made n env \<le> n" by (rule fetches_made_le)
next
  fix k assume "Suc k < fetches_made n env"
  then show "in_progress (env k)" by (rule fetched_before_last)
next
  fix k
  assume a: "k < fetches_made n env \<and> (reports ''completed'' (env k) \<or> reports ''failed'' (env k))"
  then have "\<not> in_progress (env k)" by (simp add: terminal_not_in_progress)
  then have "\<not> Suc k < fetches_made n env" using fetched_before_last by blast
  with a show "fetches_made n env = Suc k" by simp
next
  have "{k. Suc k < fetches_made n env \<and> in_progress (env k) \<and> in_progress (env (Suc k))}
        \<subseteq> {..<n - 1}"
    using fetches_made_le [of n env] by auto
  then have "card {k. Suc k < fetches_made n env \<and> in_progress (env k) \<and> in_progress (env (Suc k))}
        \<le> card {..<n - 1}"
    by (intro card_mono) simp_all
  then show "card {k. Suc k < fetches_made n env \<and> in_progress (env k) \<and> in_progress (env (Suc k))}
        \<le> n - 1" by simp
qed

text \<open>The sequence pending, completed with five attempts: the second fetch is the last.\<close>

theorem poll_never_fetches_after_terminal_witness:
  "in_progress (script [status_only ''pending'', done_with ''https://cdn.example/a.png''] (status_only ''pending'') 0) \<and>
   reports ''completed'' (script [status_only ''pending'', done_with ''https://cdn.example/a.png''] (status_only ''pending'') 1) \<and>
   fetches_made 5 (script [status_only ''pending'', done_with ''https://cdn.example/a.png''] (status_only ''pending'')) = 2"
proof -
  let ?env = "script [status_only ''pending'', done_with ''https://cdn.example/a.png''] (status_only ''pending'')"
  have c1: "reports ''completed'' (?env 1)" by (simp add: script_def reports_def done_with_def)
  have g: "1 < fetches_made 5 ?env"
    by (simp add: fetches_made_def script_def status_only_def done_with_def init_state_def
        eval_nat_numeral)
  from g have g': "Suc 0 < fetches_made 5 ?env" by simp
  from g c1 have h: "1 < fetches_made 5 ?env \<and> (reports ''completed'' (?env 1) \<or> reports ''failed'' (?env 1))"
    by simp
  note inst = poll_never_fetches_after_terminal [of 5 ?env]
  from inst have "in_progress (?env 0)" using g' by blast
  moreover from inst h have "fetches_made 5 ?env = Suc 1" by blast
  ultimately show ?thesis using c1 by simp
qed

text \<open>
  Claim C10. The status response is indexed without a guard: a well-formed response
  without the key \<open>status\<close>, and one that reports \<open>completed\<close> without the key
  \<open>image_url_png\<close>, make \<open>poll_for_image_completion\<close> raise a \<open>KeyError\<close> that
  nothing catches, instead of returning a value.
\<close>

theorem poll_raises_key_error:
  "fst (poll_for_image_completion (script [Response [(''uid'', PyStr ''abc'')]] later) init_state)
     = Inl (KeyError ''status'') \<and>
   fst (poll_for_image_completion
          (script [Response [(''status'', PyStr ''completed''), (''uid'', PyStr ''abc'')]] later) init_state)
     = Inl (KeyError ''image_url_png'')"
  by (simp add: poll_for_image_completion_def script_def init_state_def eval_nat_numeral)

section \<open>Properties of field updates and submission\<close>

text \<open>
  Claim C6, as the code has it. Once a template with a \<open>uid\<close> is selected, the chat
  handler calls \<open>create_image\<close> exactly once, whatever the modification list (empty
  or not), and passes it the template identifier with the list of the modifications, each
  reduced to its entries whose value is not \<open>None\<close>. \<open>generate_bannerbear_image\<close>
  of the form application sends exactly one job-creation request, with the modification
  list as it is given, dropping nothing.
\<close>

theorem submission_issues_one_request:
  assumes "selected_template_details s = Some details" and "map_of details ''uid'' = Some uid"
  shows "created (snd (handle_image_generation env s))
           = created s @ [(uid, map clean_mod (current_modifications s))] \<and>
         (\<forall>m\<in>set (current_modifications s). set (clean_mod m) = {kv \<in> set m. snd kv \<noteq> PyNone}) \<and>
         posts (snd (generate_bannerbear_image template_id modifications response a))
           = posts a @ [(template_id, modifications)]"
proof (intro conjI ballI)
  from assms show "created (snd (handle_image_generation env s))
           = created s @ [(uid, map clean_mod (current_modifications s))]"
    by (rule handle_image_generation_created)
next
  fix m show "set (clean_mod m) = {kv \<in> set m. snd kv \<noteq> PyNone}" by (rule set_clean_mod)
next
  show "posts (snd (generate_bannerbear_image template_id modifications response a))
           = posts a @ [(template_id, modifications)]"
    by (cases response) simp_all
qed

text \<open>The example session, and a submission of the form application.\<close>

theorem submission_issues_one_request_witness:
  "selected_template_details example_session
     = Some [(''uid'', PyStr ''tpl1''), (''name'', PyStr ''Promo'')] \<and>
   map_of [(''uid'', PyStr ''tpl1''), (''name'', PyStr ''Promo'')] ''uid'' = Some (PyStr ''tpl1'') \<and>
   created (snd (handle_image_generation example_env example_session))
     = [(PyStr ''tpl1'', [[(''name'', PyStr ''title'')], [(''name'', PyStr ''photo'')]])] \<and>
   posts (snd (generate_bannerbear_image (PyStr ''tpl1'')
            [[(''name'', PyStr ''title''), (''text'', PyStr ''Hello'')]]
            (Response [(''uid'', PyStr ''img1'')]) init_state))
     = [(PyStr ''tpl1'', [[(''name'', PyStr ''title''), (''text'', PyStr ''Hello'')]])]"
proof -
  have a: "selected_template_details example_session
     = Some [(''uid'', PyStr ''tpl1''), (''name'', PyStr ''Promo'')]"
    by (simp add: example_session_def)
  have b: "map_of [(''uid'', PyStr ''tpl1''), (''name'', PyStr ''Promo'')] ''uid'' = Some (PyStr ''tpl1'')"
    by simp
  have c: "created example_session = []"
          "map clean_mod (current_modifications example_session)
             = [[(''name'', PyStr ''title'')], [(''name'', PyStr ''photo'')]]"
    by (simp_all add: example_session_def clean_mod_def)
  from submission_issues_one_request [OF a b, of example_env "PyStr ''tpl1''"
      "[[(''name'', PyStr ''title''), (''text'', PyStr ''Hello'')]]"
      "Response [(''uid'', PyStr ''img1'')]" init_state] a b c
  show ?thesis by (simp add: init_state_def)
qed

text \<open>
  Where the claim as stated fails: \<open>generate_bannerbear_image\<close> given a modification
  whose \<open>image_url\<close> is \<open>None\<close> sends that entry in the payload.
\<close>

theorem form_submission_keeps_null_fields:
  "generate_bannerbear_image (PyStr ''tpl1'')
     [[(''name'', PyStr ''photo''), (''image_url'', PyNone)]]
     (Response [(''uid'', PyStr ''img1'')]) init_state
   = (Some [(''uid'', PyStr ''img1'')],
      \<lparr>posts = [(PyStr ''tpl1'', [[(''name'', PyStr ''photo''), (''image_url'', PyNone)]])],
         gets = 0, sleeps = 0, ui = []\<rparr>)"
  by (simp add: init_state_def)

text \<open>
  Claim C9. A field update leaves the modification list as it is, or changes exactly the
  first modification whose name is the given layer name, every modification before and
  after it staying the same; when no modification has that name, the list is unchanged.
\<close>

theorem update_touches_first_match_only:
  "(current_modifications (snd (handle_gemini_function_call args s)) = current_modifications s \<or>
    (\<exists>pre m post.
        current_modifications s = pre @ m # post \<and>
        (\<forall>x\<in>set pre. \<not> names (layer_name_arg args) x) \<and>
        names (layer_name_arg args) m \<and>
        current_modifications (snd (handle_gemini_function_call args s))
          = pre @ apply_update args m # post)) \<and>
   ((\<forall>x\<in>set (current_modifications s). \<not> names (layer_name_arg args) x) \<longrightarrow>
      current_modifications (snd (handle_gemini_function_call args s)) = current_modifications s)"
  using handler_changes [of args s] handler_no_match [of s args] by blast

text \<open>
  An update of a layer the example session does not have, and one of its image layer.
\<close>

theorem update_touches_first_match_only_witness:
  "\<not> names (PyStr ''logo'') [(''name'', PyStr ''title''), (''text'', PyNone), (''color'', PyNone)] \<and>
   \<not> names (PyStr ''logo'') [(''name'', PyStr ''photo''), (''image_url'', PyNone)] \<and>
   current_modifications
     (snd (handle_gemini_function_call [(''layer_name'', PyStr ''logo''), (''new_text'', PyStr ''Sale'')]
        example_session))
     = current_modifications example_session \<and>
   current_modifications
     (snd (handle_gemini_function_call
        [(''layer_name'', PyStr ''photo''), (''new_image_url'', PyStr ''https://img.example/p.png'')]
        example_session))
     = [[(''name'', PyStr ''title''), (''text'', PyNone), (''color'', PyNone)],
        [(''name'', PyStr ''photo''), (''image_url'', PyStr ''https://img.example/p.png'')]]"
proof -
  let ?args = "[(''layer_name'', PyStr ''logo''), (''new_text'', PyStr ''Sale'')]"
  have l: "layer_name_arg ?args = PyStr ''logo''" by (simp add: layer_name_arg_def)
  have a: "\<not> names (PyStr ''logo'') [(''name'', PyStr ''title''), (''text'', PyNone), (''color'', PyNone)]"
    by (simp add: names_def)
  have b: "\<not> names (PyStr ''logo'') [(''name'', PyStr ''photo''), (''image_url'', PyNone)]"
    by (simp add: names_def)
  from a b have h: "\<forall>x\<in>set (current_modifications example_session). \<not> names (layer_name_arg ?args) x"
    by (simp add: l example_session_def)
  have c: "current_modifications
     (snd (handle_gemini_function_call
        [(''layer_name'', PyStr ''photo''), (''new_image_url'', PyStr ''https://img.example/p.png'')]
        example_session))
     = [[(''name'', PyStr ''title''), (''text'', PyNone), (''color'', PyNone)],
        [(''name'', PyStr ''photo''), (''image_url'', PyStr ''https://img.example/p.png'')]]"
    by (simp add: handle_gemini_function_call_def example_session_def layer_name_arg_def
        apply_update_def Let_def)
  from update_touches_first_match_only [of ?args example_session, THEN conjunct2, THEN mp, OF h] a b c
  show ?thesis by simp
qed

text \<open>
  Claim C8, as the code has it. A field update writes one value kind into the first
  modification with the given name (\<open>text\<close> when \<open>new_text\<close> is given, otherwise
  \<open>image_url\<close>) and leaves the entry of the other kind as it is. So when every
  modification has at most one value kind set, and the modifications with the given name
  do not have the other kind set, every modification has at most one value kind set after
  the update, and so has every modification of the list submitted, from which the
  \<open>None\<close> entries are dropped.
\<close>

theorem update_preserves_one_kind:
  assumes inv: "list_all one_kind (current_modifications s)"
      and wf: "list_all wf_dict (current_modifications s)"
      and other: "\<forall>m\<in>set (current_modifications s).
                    names (layer_name_arg args) m \<longrightarrow> \<not> is_set m (other_kind args)"
  shows "list_all one_kind (current_modifications (snd (handle_gemini_function_call args s))) \<and>
         list_all one_kind
           (map clean_mod (current_modifications (snd (handle_gemini_function_call args s))))"
proof -
  let ?after = "current_modifications (snd (handle_gemini_function_call args s))"
  have both: "list_all one_kind ?after \<and> list_all wf_dict ?after"
    using handler_changes [of args s]
  proof
    assume "?after = current_modifications s"
    with inv wf show ?thesis by simp
  next
    assume "\<exists>pre m post.
        current_modifications s = pre @ m # post \<and>
        (\<forall>x\<in>set pre. \<not> names (layer_name_arg args) x) \<and>
        names (layer_name_arg args) m \<and> ?after = pre @ apply_update args m # post"
    then obtain pre m post where d: "current_modifications s = pre @ m # post"
      "names (layer_name_arg args) m" "?after = pre @ apply_update args m # post" by blast
    from d(1) inv wf have parts: "list_all one_kind pre" "one_kind m" "list_all one_kind post"
      "list_all wf_dict pre" "wf_dict m" "list_all wf_dict post" by simp_all
    from d(1) have "m \<in> set (current_modifications s)" by simp
    with other d(2) have "\<not> is_set m (other_kind args)" by blast
    with parts(2) have "one_kind (apply_update args m)" by (rule one_kind_apply_update)
    moreover from parts(5) have "wf_dict (apply_update args m)" by (rule wf_dict_apply_update)
    ultimately show ?thesis using parts by (simp add: d(3))
  qed
  then show ?thesis by (simp add: list_all_one_kind_clean)
qed

text \<open>Setting the text of the text layer of the example session.\<close>

theorem update_preserves_one_kind_witness:
  "list_all one_kind (current_modifications example_session) \<and>
   list_all wf_dict (current_modifications example_session) \<and>
   \<not> is_set [(''name'', PyStr ''title''), (''text'', PyNone), (''color'', PyNone)] ''image_url'' \<and>
   \<not> names (PyStr ''title'') [(''name'', PyStr ''photo''), (''image_url'', PyNone)] \<and>
   current_modifications
     (snd (handle_gemini_function_call [(''layer_name'', PyStr ''title''), (''new_text'', PyStr ''Hello'')]
        example_session))
     = [[(''name'', PyStr ''title''), (''text'', PyStr ''Hello''), (''color'', PyNone)],
        [(''name'', PyStr ''photo''), (''image_url'', PyNone)]] \<and>
   list_all one_kind
     (current_modifications
        (snd (handle_gemini_function_call [(''layer_name'', PyStr ''title''), (''new_text'', PyStr ''Hello'')]
           example_session)))"
proof -
  let ?args = "[(''layer_name'', PyStr ''title''), (''new_text'', PyStr ''Hello'')]"
  have inv: "list_all one_kind (current_modifications example_session)"
    by (simp add: example_session_def one_kind_def is_set_def)
  have wf: "list_all wf_dict (current_modifications example_session)"
    by (simp add: example_session_def wf_dict_def)
  have a: "\<not> is_set [(''name'', PyStr ''title''), (''text'', PyNone), (''color'', PyNone)] ''image_url''"
    by (simp add: is_set_def)
  have b: "\<not> names (PyStr ''title'') [(''name'', PyStr ''photo''), (''image_url'', PyNone)]"
    by (simp add: names_def)
  have other: "\<forall>m\<in>set (current_modifications example_session).
      names (layer_name_arg ?args) m \<longrightarrow> \<not> is_set m (other_kind ?args)"
    using a b by (simp add: example_session_def layer_name_arg_def other_kind_def)
  have run: "current_modifications (snd (handle_gemini_function_call ?args example_session))
     = [[(''name'', PyStr ''title''), (''text'', PyStr ''Hello''), (''color'', PyNone)],
        [(''name'', PyStr ''photo''), (''image_url'', PyNone)]]"
    by (simp add: handle_gemini_function_call_def example_session_def layer_name_arg_def
        apply_update_def Let_def)
  from update_preserves_one_kind [OF inv wf other] inv wf a b run
  show ?thesis by simp
qed

text \<open>
  Where the claim as stated fails: a text written to the image layer and then an image
  locator written to the same layer leave both kinds set, and both are submitted.
\<close>

theorem updates_set_both_kinds:
  "list_all one_kind (current_modifications example_session) \<and>
   current_modifications
     (snd (handle_gemini_function_call
        [(''layer_name'', PyStr ''photo''), (''new_image_url'', PyStr ''https://img.example/p.png'')]
        (snd (handle_gemini_function_call
           [(''layer_name'', PyStr ''photo''), (''new_text'', PyStr ''Sale'')] example_session))))
     = [[(''name'', PyStr ''title''), (''text'', PyNone), (''color'', PyNone)],
        [(''name'', PyStr ''photo''), (''image_url'', PyStr ''https://img.example/p.png''),
         (''text'', PyStr ''Sale'')]] \<and>
   \<not> one_kind [(''name'', PyStr ''photo''), (''image_url'', PyStr ''https://img.example/p.png''),
         (''text'', PyStr ''Sale'')] \<and>
   created (snd (handle_image_generation example_env
     (snd (handle_gemini_function_call
        [(''layer_name'', PyStr ''photo''), (''new_image_url'', PyStr ''https://img.example/p.png'')]
        (snd (handle_gemini_function_call
           [(''layer_name'', PyStr ''photo''), (''new_text'', PyStr ''Sale'')] example_session))))))
     = [(PyStr ''tpl1'',
         [[(''name'', PyStr ''title'')],
          [(''name'', PyStr ''photo''), (''image_url'', PyStr ''https://img.example/p.png''),
           (''text'', PyStr ''Sale'')]])]"
  by (simp add: handle_gemini_function_call_def handle_image_generation_def example_session_def
      example_env_def layer_name_arg_def apply_update_def one_kind_def is_set_def clean_mod_def
      present_image_def Let_def)

end
